theory Spec2Isabelle
  imports Complex_Main
begin

section \<open>JavaScript values\<close>

text \<open>
  The components are TypeScript running in the browser. Spreadsheet cells arrive as
  untyped values (\<^verbatim>\<open>any\<close>): a cell is missing, null, a boolean, a number or a
  string. A number is an IEEE double; only whether it is NaN or zero is ever inspected
  by the code, so a finite double is kept as the real it denotes (negative zero is
  identified with zero: both are falsy and neither is NaN).
\<close>

datatype jsnum = NaN | PosInf | NegInf | Fin real

datatype jsval = JUndefined | JNull | JBool bool | JNum jsnum | JStr string

text \<open>ToBoolean: what \<^verbatim>\<open>v && ...\<close> and \<^verbatim>\<open>v || ...\<close> test.\<close>

fun truthy :: "jsval \<Rightarrow> bool" where
  "truthy JUndefined = False"
| "truthy JNull = False"
| "truthy (JBool b) = b"
| "truthy (JNum n) = (n \<noteq> NaN \<and> n \<noteq> Fin 0)"
| "truthy (JStr s) = (s \<noteq> [])"

text \<open>\<^verbatim>\<open>a || b\<close>\<close>

definition js_or :: "jsval \<Rightarrow> jsval \<Rightarrow> jsval" where
  "js_or a b = (if truthy a then a else b)"

text \<open>
  \<^verbatim>\<open>String.prototype.trim\<close> removes white space and line terminators at both ends.
  Of those, the code points below 256 are tab, line feed, vertical tab, form feed,
  carriage return, space and the no-break space.
\<close>

definition is_ws :: "char \<Rightarrow> bool" where
  "is_ws c = (let n = (of_char c :: nat) in
     n = 9 \<or> n = 10 \<or> n = 11 \<or> n = 12 \<or> n = 13 \<or> n = 32 \<or> n = 160)"

definition trim :: "string \<Rightarrow> string" where
  "trim s = rev (dropWhile is_ws (rev (dropWhile is_ws s)))"

text \<open>
  A plain object is its list of properties in insertion order. Reading a property the
  object does not have gives undefined; writing an existing property keeps its place
  and replaces its value, writing a new one appends it.
\<close>

type_synonym obj = "(string \<times> jsval) list"

definition get_prop :: "obj \<Rightarrow> string \<Rightarrow> jsval" where
  "get_prop ob k = (case map_of ob k of None \<Rightarrow> JUndefined | Some v \<Rightarrow> v)"

fun set_prop :: "string \<Rightarrow> jsval \<Rightarrow> obj \<Rightarrow> obj" where
  "set_prop k v [] = [(k, v)]"
| "set_prop k v ((k', v') # ps) =
     (if k' = k then (k, v) # ps else (k', v') # set_prop k v ps)"

text \<open>\<^verbatim>\<open>row[index]\<close> on an array: undefined past the end.\<close>

definition cell_at :: "jsval list \<Rightarrow> nat \<Rightarrow> jsval" where
  "cell_at row i = (if i < length row then row ! i else JUndefined)"

section \<open>ExcelDataViewer: parseExcelFile\<close>

text \<open>
  \<^verbatim>\<open>XLSX.read\<close> and \<^verbatim>\<open>XLSX.utils.sheet_to_json(worksheet, { header: 1 })\<close> belong
  to the spreadsheet library; the model starts from what they return. For one sheet
  that is an array of rows, each row an array of raw cells. The cast
  \<^verbatim>\<open>jsonData[0] as string[]\<close> changes nothing at run time: an element of the first
  row is a raw cell like any other (a header cell may be the number 0 or the boolean
  false), or a hole of the array (\<open>None\<close>), which \<^verbatim>\<open>forEach\<close> and \<^verbatim>\<open>filter\<close>
  pass over. \<open>None\<close> for the whole sheet is the empty array
  (\<^verbatim>\<open>jsonData.length = 0\<close>); \<open>Some (headers, rows)\<close> is \<^verbatim>\<open>jsonData[0]\<close> and
  \<^verbatim>\<open>jsonData.slice(1)\<close>.
\<close>

type_synonym header_row = "jsval option list"

type_synonym json_data = "(header_row \<times> jsval list list) option"

record workbook =
  SheetNames :: "string list"
  sheet_to_json :: "string \<Rightarrow> json_data"

text \<open>
  \<^verbatim>\<open>columns\<close> is declared \<^verbatim>\<open>string[]\<close> and holds header cells as they are.
\<close>

record SheetData =
  name :: string
  data :: "obj list"
  columns :: "jsval list"

text \<open>
  The string of a value: what \<^verbatim>\<open>h.toString()\<close> returns and what \<^verbatim>\<open>obj[h]\<close> uses
  as the property key. The string of a number is the runtime's; the model takes that
  function as the parameter \<open>nts\<close>.
\<close>

fun to_string :: "(jsnum \<Rightarrow> string) \<Rightarrow> jsval \<Rightarrow> string" where
  "to_string nts JUndefined = ''undefined''"
| "to_string nts JNull = ''null''"
| "to_string nts (JBool b) = (if b then ''true'' else ''false'')"
| "to_string nts (JNum n) = nts n"
| "to_string nts (JStr s) = s"

text \<open>
  \<^verbatim>\<open>headers.forEach((header, index) => { obj[header] = row[index] || ''; })\<close>,
  from index \<open>i\<close> on.
\<close>

fun format_cells ::
    "(jsnum \<Rightarrow> string) \<Rightarrow> nat \<Rightarrow> header_row \<Rightarrow> jsval list \<Rightarrow> obj \<Rightarrow> obj" where
  "format_cells nts i [] row ob = ob"
| "format_cells nts i (None # hs) row ob = format_cells nts (Suc i) hs row ob"
| "format_cells nts i (Some h # hs) row ob =
     format_cells nts (Suc i) hs row
       (set_prop (to_string nts h) (js_or (cell_at row i) (JStr [])) ob)"

definition format_row :: "(jsnum \<Rightarrow> string) \<Rightarrow> header_row \<Rightarrow> jsval list \<Rightarrow> obj" where
  "format_row nts headers row = format_cells nts 0 headers row []"

text \<open>The elements of an array that are not holes, in order.\<close>

fun present :: "'a option list \<Rightarrow> 'a list" where
  "present [] = []"
| "present (None # xs) = present xs"
| "present (Some x # xs) = x # present xs"

text \<open>\<^verbatim>\<open>headers.filter(h => h && h.toString().trim() !== '')\<close>\<close>

definition header_columns :: "(jsnum \<Rightarrow> string) \<Rightarrow> header_row \<Rightarrow> jsval list" where
  "header_columns nts headers =
     filter (\<lambda>h. truthy h \<and> trim (to_string nts h) \<noteq> []) (present headers)"

text \<open>The body of \<^verbatim>\<open>workbook.SheetNames.forEach\<close>, pushing onto \<open>sheetsData\<close>.\<close>

fun parse_sheets ::
    "(jsnum \<Rightarrow> string) \<Rightarrow> workbook \<Rightarrow> string list \<Rightarrow> SheetData list \<Rightarrow> SheetData list" where
  "parse_sheets nts wb [] sheetsData = sheetsData"
| "parse_sheets nts wb (sheetName # rest) sheetsData =
     (case sheet_to_json wb sheetName of
        None \<Rightarrow> parse_sheets nts wb rest sheetsData
      | Some (headers, rows) \<Rightarrow>
          parse_sheets nts wb rest
            (sheetsData @
              [\<lparr>name = sheetName,
                data = map (format_row nts headers) rows,
                columns = header_columns nts headers\<rparr>]))"

definition sheetsData_of :: "(jsnum \<Rightarrow> string) \<Rightarrow> workbook \<Rightarrow> SheetData list" where
  "sheetsData_of nts wb = parse_sheets nts wb (SheetNames wb) []"

text \<open>
  For stating what the parser returns: the sheets of a workbook whose
  \<^verbatim>\<open>sheet_to_json\<close> output is not empty, in the order of \<^verbatim>\<open>SheetNames\<close>, each with its
  header row and its data rows.
\<close>

fun nonempty_sheets ::
    "workbook \<Rightarrow> string list \<Rightarrow> (string \<times> header_row \<times> jsval list list) list" where
  "nonempty_sheets wb [] = []"
| "nonempty_sheets wb (n # ns) =
     (case sheet_to_json wb n of
        None \<Rightarrow> nonempty_sheets wb ns
      | Some (hs, rs) \<Rightarrow> (n, hs, rs) # nonempty_sheets wb ns)"

section \<open>ExcelDataViewer: the analytics summary of a sheet\<close>

text \<open>
  The object \<^verbatim>\<open>saveAnalyticsData\<close> passes to \<^verbatim>\<open>upsert\<close> for one sheet: the columns
  \<^verbatim>\<open>user_id\<close>, \<^verbatim>\<open>file_id\<close>, \<^verbatim>\<open>sheet_name\<close> and \<^verbatim>\<open>data\<close> of table
  \<^verbatim>\<open>analytics_data\<close>, the last one the JSON object
  \<^verbatim>\<open>{ columns, rowCount, sampleData }\<close>. It has no \<^verbatim>\<open>id\<close>.
\<close>

record analytics_summary =
  summary_columns :: "jsval list"
  rowCount :: nat
  sampleData :: "obj list"

record analytics_values =
  ad_user_id :: string
  ad_file_id :: string
  ad_sheet_name :: string
  ad_data :: analytics_summary

definition upsert_values :: "string \<Rightarrow> string \<Rightarrow> SheetData \<Rightarrow> analytics_values" where
  "upsert_values uid file_id sheet =
     \<lparr>ad_user_id = uid, ad_file_id = file_id, ad_sheet_name = name sheet,
      ad_data = \<lparr>summary_columns = columns sheet, rowCount = length (data sheet),
                 sampleData = take 5 (data sheet)\<rparr>\<rparr>"

text \<open>
  For stating what is saved for a sheet, from its name, header row and data rows: as
  columns the header cells that are truthy and whose string is not empty once trimmed,
  each as the sheet has it; as row count the number of data rows; as sample the first
  five formatted data rows, or all of them when there are fewer.
\<close>

definition sheet_values ::
    "(jsnum \<Rightarrow> string) \<Rightarrow> string \<Rightarrow> string \<Rightarrow> string \<times> header_row \<times> jsval list list \<Rightarrow>
     analytics_values" where
  "sheet_values nts uid file_id sheet =
     (case sheet of
        (n, hs, rs) \<Rightarrow>
          \<lparr>ad_user_id = uid, ad_file_id = file_id, ad_sheet_name = n,
           ad_data =
             \<lparr>summary_columns =
                filter (\<lambda>h. truthy h \<and> trim (to_string nts h) \<noteq> []) (present hs),
              rowCount = length rs,
              sampleData = take (min 5 (length rs)) (map (format_row nts hs) rs)\<rparr>\<rparr>)"

section \<open>ChartGenerator: generateChartData\<close>

text \<open>
  \<^verbatim>\<open>isNaN(v)\<close> converts \<open>v\<close> to a number first. A string converts to NaN exactly
  when, trimmed, it is neither empty nor a numeric literal of the language's
  StringNumericLiteral grammar: an optionally signed decimal literal or
  \<^verbatim>\<open>Infinity\<close>, or an unsigned hexadecimal, octal or binary literal.
\<close>

definition is_digit :: "char \<Rightarrow> bool" where
  "is_digit c = (let n = (of_char c :: nat) in 48 \<le> n \<and> n \<le> 57)"

definition is_hex_digit :: "char \<Rightarrow> bool" where
  "is_hex_digit c = (let n = (of_char c :: nat) in
     (48 \<le> n \<and> n \<le> 57) \<or> (65 \<le> n \<and> n \<le> 70) \<or> (97 \<le> n \<and> n \<le> 102))"

definition is_octal_digit :: "char \<Rightarrow> bool" where
  "is_octal_digit c = (let n = (of_char c :: nat) in 48 \<le> n \<and> n \<le> 55)"

definition is_binary_digit :: "char \<Rightarrow> bool" where
  "is_binary_digit c = (c = CHR ''0'' \<or> c = CHR ''1'')"

definition drop_sign :: "string \<Rightarrow> string" where
  "drop_sign s =
     (case s of [] \<Rightarrow> [] | c # r \<Rightarrow> if c = CHR ''+'' \<or> c = CHR ''-'' then r else s)"

text \<open>What follows the mantissa: nothing, or \<^verbatim>\<open>e\<close>, an optional sign and digits.\<close>

definition exponent_part_opt :: "string \<Rightarrow> bool" where
  "exponent_part_opt s =
     (case s of
        [] \<Rightarrow> True
      | c # r \<Rightarrow> (c = CHR ''e'' \<or> c = CHR ''E'') \<and> drop_sign r \<noteq> [] \<and>
                 list_all is_digit (drop_sign r))"

definition unsigned_decimal :: "string \<Rightarrow> bool" where
  "unsigned_decimal s =
     (let ip = takeWhile is_digit s; r = dropWhile is_digit s in
      case r of
        [] \<Rightarrow> ip \<noteq> []
      | c # r2 \<Rightarrow>
          if c = CHR ''.''
          then (ip \<noteq> [] \<or> takeWhile is_digit r2 \<noteq> []) \<and>
               exponent_part_opt (dropWhile is_digit r2)
          else ip \<noteq> [] \<and> exponent_part_opt r)"

definition str_decimal_literal :: "string \<Rightarrow> bool" where
  "str_decimal_literal s = (drop_sign s = ''Infinity'' \<or> unsigned_decimal (drop_sign s))"

definition non_decimal_literal :: "string \<Rightarrow> bool" where
  "non_decimal_literal s =
     (case s of
        c0 # c1 # ds \<Rightarrow> c0 = CHR ''0'' \<and> ds \<noteq> [] \<and>
          (((c1 = CHR ''x'' \<or> c1 = CHR ''X'') \<and> list_all is_hex_digit ds) \<or>
           ((c1 = CHR ''o'' \<or> c1 = CHR ''O'') \<and> list_all is_octal_digit ds) \<or>
           ((c1 = CHR ''b'' \<or> c1 = CHR ''B'') \<and> list_all is_binary_digit ds))
      | _ \<Rightarrow> False)"

definition string_numeric :: "string \<Rightarrow> bool" where
  "string_numeric s =
     (trim s = [] \<or> str_decimal_literal (trim s) \<or> non_decimal_literal (trim s))"

fun isNaN :: "jsval \<Rightarrow> bool" where
  "isNaN JUndefined = True"
| "isNaN JNull = False"
| "isNaN (JBool b) = False"
| "isNaN (JNum n) = (n = NaN)"
| "isNaN (JStr s) = (\<not> string_numeric s)"

text \<open>\<^verbatim>\<open>n || 0\<close> for a number \<open>n\<close>.\<close>

definition or_zero :: "jsnum \<Rightarrow> jsnum" where
  "or_zero n = (if truthy (JNum n) then n else Fin 0)"

text \<open>
  The object literal of \<^verbatim>\<open>data.map\<close>:
  \<^verbatim>\<open>{ [xAxis]: row[xAxis], [yAxis]: parseFloat(row[yAxis]) || 0,
     name: row[xAxis], value: parseFloat(row[yAxis]) || 0 }\<close>.
  Its four properties are defined in this order, and a later one with the same key
  replaces the value of an earlier one. \<^verbatim>\<open>parseFloat\<close> is the runtime's; the model
  takes it as a parameter.
\<close>

definition chart_item :: "(jsval \<Rightarrow> jsnum) \<Rightarrow> string \<Rightarrow> string \<Rightarrow> obj \<Rightarrow> obj" where
  "chart_item parseFloat x y row =
     set_prop ''value'' (JNum (or_zero (parseFloat (get_prop row y))))
       (set_prop ''name'' (get_prop row x)
         (set_prop y (JNum (or_zero (parseFloat (get_prop row y))))
           (set_prop x (get_prop row x) [])))"

text \<open>
  \<^verbatim>\<open>data.map(...).filter(item => item[xAxis] && !isNaN(item[yAxis]))\<close>, then
  \<^verbatim>\<open>slice(0, 20)\<close>: the value passed to \<^verbatim>\<open>setChartData\<close>. Nothing in the body
  throws on rows that are objects, so the \<^verbatim>\<open>catch\<close> branch is not reached.
\<close>

definition generateChartData ::
    "(jsval \<Rightarrow> jsnum) \<Rightarrow> obj list \<Rightarrow> string \<Rightarrow> string \<Rightarrow> obj list" where
  "generateChartData parseFloat rows x y =
     take 20
       (filter (\<lambda>item. truthy (get_prop item x) \<and> \<not> isNaN (get_prop item y))
         (map (chart_item parseFloat x y) rows))"

section \<open>ChartGenerator: state, effect and downloadChart\<close>

record ChartGeneratorProps =
  fileId :: string
  fileName :: string
  chart_columns :: "string list"
  chart_rows :: "obj list"

record chart_state =
  selectedChart :: string
  xAxis :: string
  yAxis :: string
  chartData :: "obj list"

definition chart_init :: chart_state where
  "chart_init = \<lparr>selectedChart = ''bar'', xAxis = [], yAxis = [], chartData = []\<rparr>"

text \<open>
  The effect with dependencies \<^verbatim>\<open>[xAxis, yAxis, data]\<close>:
  \<^verbatim>\<open>if (xAxis && yAxis && data.length > 0) generateChartData()\<close>.
\<close>

definition chart_effect ::
    "(jsval \<Rightarrow> jsnum) \<Rightarrow> ChartGeneratorProps \<Rightarrow> chart_state \<Rightarrow> chart_state" where
  "chart_effect parseFloat props st =
     (if xAxis st \<noteq> [] \<and> yAxis st \<noteq> [] \<and> chart_rows props \<noteq> []
      then st\<lparr>chartData := generateChartData parseFloat (chart_rows props) (xAxis st) (yAxis st)\<rparr>
      else st)"

text \<open>
  What can happen to a mounted ChartGenerator: the user picks a chart type or an axis,
  or the parent renders it with new props. The effect runs after a change of an axis or
  of the props.
\<close>

datatype chart_event =
    SetSelectedChart string
  | SetXAxis string
  | SetYAxis string
  | NewProps ChartGeneratorProps

fun chart_step ::
    "(jsval \<Rightarrow> jsnum) \<Rightarrow> ChartGeneratorProps \<times> chart_state \<Rightarrow> chart_event \<Rightarrow>
     ChartGeneratorProps \<times> chart_state" where
  "chart_step parseFloat (props, st) (SetSelectedChart c) = (props, st\<lparr>selectedChart := c\<rparr>)"
| "chart_step parseFloat (props, st) (SetXAxis x) =
     (props, chart_effect parseFloat props (st\<lparr>xAxis := x\<rparr>))"
| "chart_step parseFloat (props, st) (SetYAxis y) =
     (props, chart_effect parseFloat props (st\<lparr>yAxis := y\<rparr>))"
| "chart_step parseFloat (props, st) (NewProps props') =
     (props', chart_effect parseFloat props' st)"

definition chart_run ::
    "(jsval \<Rightarrow> jsnum) \<Rightarrow> ChartGeneratorProps \<Rightarrow> chart_event list \<Rightarrow>
     ChartGeneratorProps \<times> chart_state" where
  "chart_run parseFloat props0 evs =
     foldl (chart_step parseFloat) (props0, chart_effect parseFloat props0 chart_init) evs"

text \<open>
  The object \<^verbatim>\<open>chartConfig\<close> that \<^verbatim>\<open>downloadChart\<close> serialises, as its properties
  in order. \<open>now\<close> is \<^verbatim>\<open>new Date().toISOString()\<close>.
\<close>

datatype config_value = CString string | CRows "obj list"

definition chartConfig ::
    "string \<Rightarrow> ChartGeneratorProps \<Rightarrow> chart_state \<Rightarrow> (string \<times> config_value) list" where
  "chartConfig now props st =
     [(''fileName'', CString (fileName props)),
      (''chartType'', CString (selectedChart st)),
      (''xAxis'', CString (xAxis st)),
      (''yAxis'', CString (yAxis st)),
      (''data'', CRows (chartData st)),
      (''generatedAt'', CString now)]"

text \<open>
  For stating what the user has selected after a sequence of events: the value the last
  event of its kind set, or else the value before the events.
\<close>

fun current_chart :: "string \<Rightarrow> chart_event list \<Rightarrow> string" where
  "current_chart c [] = c"
| "current_chart c (SetSelectedChart c' # evs) = current_chart c' evs"
| "current_chart c (ev # evs) = current_chart c evs"

fun current_x :: "string \<Rightarrow> chart_event list \<Rightarrow> string" where
  "current_x x [] = x"
| "current_x x (SetXAxis x' # evs) = current_x x' evs"
| "current_x x (ev # evs) = current_x x evs"

fun current_y :: "string \<Rightarrow> chart_event list \<Rightarrow> string" where
  "current_y y [] = y"
| "current_y y (SetYAxis y' # evs) = current_y y' evs"
| "current_y y (ev # evs) = current_y y evs"

fun current_props :: "ChartGeneratorProps \<Rightarrow> chart_event list \<Rightarrow> ChartGeneratorProps" where
  "current_props p [] = p"
| "current_props p (NewProps p' # evs) = current_props p' evs"
| "current_props p (ev # evs) = current_props p evs"

text \<open>
  For stating that the chart data are up to date: whenever both axes are selected and
  the sheet has rows, the chart data are those generated from these rows and axes.
\<close>

definition chart_data_current ::
    "(jsval \<Rightarrow> jsnum) \<Rightarrow> ChartGeneratorProps \<times> chart_state \<Rightarrow> bool" where
  "chart_data_current pf ps =
     (xAxis (snd ps) \<noteq> [] \<and> yAxis (snd ps) \<noteq> [] \<and> chart_rows (fst ps) \<noteq> [] \<longrightarrow>
      chartData (snd ps) =
        generateChartData pf (chart_rows (fst ps)) (xAxis (snd ps)) (yAxis (snd ps)))"

section \<open>The migration: row-level-security policies\<close>

text \<open>
  Row-level security is enabled on the three tables of schema \<^verbatim>\<open>public\<close>. Each
  \<^verbatim>\<open>CREATE POLICY\<close> of the migration on one of them is a policy below, with its
  \<^verbatim>\<open>USING\<close> or \<^verbatim>\<open>WITH CHECK\<close> expression. The two expressions that occur are
  \<^verbatim>\<open>true\<close> and \<^verbatim>\<open>auth.uid() = user_id\<close>.
\<close>

datatype rls_table = Profiles | Excel_files | Analytics_data

datatype rls_command = SELECT | INSERT | UPDATE | DELETE

datatype rls_expr = Always_true | Uid_is_user_id

record policy =
  policy_name :: string
  policy_table :: rls_table
  policy_command :: rls_command
  policy_expr :: rls_expr

definition policies :: "policy list" where
  "policies =
    [\<lparr>policy_name = ''Users can view all profiles'', policy_table = Profiles,
      policy_command = SELECT, policy_expr = Always_true\<rparr>,
     \<lparr>policy_name = ''Users can update their own profile'', policy_table = Profiles,
      policy_command = UPDATE, policy_expr = Uid_is_user_id\<rparr>,
     \<lparr>policy_name = ''Users can insert their own profile'', policy_table = Profiles,
      policy_command = INSERT, policy_expr = Uid_is_user_id\<rparr>,
     \<lparr>policy_name = ''Users can view their own files'', policy_table = Excel_files,
      policy_command = SELECT, policy_expr = Uid_is_user_id\<rparr>,
     \<lparr>policy_name = ''Users can upload their own files'', policy_table = Excel_files,
      policy_command = INSERT, policy_expr = Uid_is_user_id\<rparr>,
     \<lparr>policy_name = ''Users can update their own files'', policy_table = Excel_files,
      policy_command = UPDATE, policy_expr = Uid_is_user_id\<rparr>,
     \<lparr>policy_name = ''Users can delete their own files'', policy_table = Excel_files,
      policy_command = DELETE, policy_expr = Uid_is_user_id\<rparr>,
     \<lparr>policy_name = ''Users can view their own analytics'', policy_table = Analytics_data,
      policy_command = SELECT, policy_expr = Uid_is_user_id\<rparr>,
     \<lparr>policy_name = ''Users can create their own analytics'', policy_table = Analytics_data,
      policy_command = INSERT, policy_expr = Uid_is_user_id\<rparr>]"

text \<open>
  A policy expression on a row whose \<^verbatim>\<open>user_id\<close> is \<open>owner\<close>, for a caller whose
  \<^verbatim>\<open>auth.uid()\<close> is \<open>uid\<close>: \<open>None\<close> is a request without a session, where
  \<^verbatim>\<open>auth.uid()\<close> is NULL and the comparison is not true.
\<close>

fun eval_expr :: "rls_expr \<Rightarrow> string option \<Rightarrow> string \<Rightarrow> bool" where
  "eval_expr Always_true uid owner = True"
| "eval_expr Uid_is_user_id uid owner = (uid = Some owner)"

text \<open>
  The policies of a table for one command are permissive: the row passes when one of
  them holds, and with no policy for the command no row passes.
\<close>

definition permitted :: "rls_table \<Rightarrow> rls_command \<Rightarrow> string option \<Rightarrow> string \<Rightarrow> bool" where
  "permitted t c uid owner =
     list_ex (\<lambda>p. policy_table p = t \<and> policy_command p = c \<and>
                  eval_expr (policy_expr p) uid owner) policies"

section \<open>Backend calls and what a handler does\<close>

text \<open>
  A call of the backend SDK returns a promise. It is fulfilled with
  \<^verbatim>\<open>{ data, error: null }\<close> (\<open>Success\<close>), fulfilled with an \<^verbatim>\<open>error\<close> whose
  \<^verbatim>\<open>message\<close> is given (\<open>ErrorResult\<close>), or rejected with an error of that message
  (\<open>Rejected\<close>). Which of the three happens is the backend's choice and an input
  of the model.
\<close>

datatype 'a response = Success 'a | ErrorResult string | Rejected string

text \<open>
  What reaches the \<^verbatim>\<open>catch\<close> block of a handler that writes
  \<^verbatim>\<open>const { error } = await call; if (error) throw error\<close>.
\<close>

fun failure :: "'a response \<Rightarrow> string option" where
  "failure (Success d) = None"
| "failure (ErrorResult m) = Some m"
| "failure (Rejected m) = Some m"

record user =
  user_id :: string

record js_file =
  file_name :: string
  file_type :: string
  file_size :: nat

text \<open>A row of table \<^verbatim>\<open>excel_files\<close>; the client's \<^verbatim>\<open>FileData\<close> is such a row.\<close>

record excel_file =
  ef_id :: string
  ef_user_id :: string
  ef_filename :: string
  ef_original_name :: string
  ef_file_size :: nat
  ef_file_path :: string
  ef_upload_date :: string
  ef_status :: string

text \<open>The object \<^verbatim>\<open>onDrop\<close> inserts: the other columns take their defaults.\<close>

record excel_file_values =
  ins_user_id :: string
  ins_filename :: string
  ins_original_name :: string
  ins_file_size :: nat
  ins_file_path :: string
  ins_status :: string

datatype call =
    StorageUpload string
  | StorageDownload string
  | StorageRemove "string list"
  | InsertExcelFile excel_file_values
  | DeleteExcelFile string string
  | SelectExcelFiles string
  | UpsertAnalytics analytics_values

record toast =
  title :: string
  description :: string
  destructive :: bool

text \<open>
  What a handler does, in order: it issues a backend call, resumes when an awaited
  call has settled, shows a toast, writes to the console, sets component state, calls
  a callback of its parent, or has the browser save a file.
\<close>

datatype event =
    Issue call
  | Settled call
  | Toast toast
  | ConsoleError string
  | SetUploading bool
  | SetUploadProgress nat
  | OnUploadComplete
  | SetDeletingId "string option"
  | OnFileDeleted
  | SetLoading bool
  | SetFileData
  | SetSheets "SheetData list"
  | SetFiles "excel_file list"
  | SetTotalFiles nat
  | SetTotalSize nat
  | SaveAs string




text \<open>The backend calls a handler issues, in order.\<close>

fun calls_issued :: "event list \<Rightarrow> call list" where
  "calls_issued [] = []"
| "calls_issued (Issue c # es) = c # calls_issued es"
| "calls_issued (e # es) = calls_issued es"

text \<open>
  The largest number of calls issued and not yet settled at one time: \<open>cur\<close> are
  in flight now, \<open>mx\<close> is the largest number so far.
\<close>

fun in_flight_peak :: "nat \<Rightarrow> nat \<Rightarrow> event list \<Rightarrow> nat" where
  "in_flight_peak cur mx [] = mx"
| "in_flight_peak cur mx (Issue c # es) = in_flight_peak (Suc cur) (max mx (Suc cur)) es"
| "in_flight_peak cur mx (Settled c # es) = in_flight_peak (cur - 1) mx es"
| "in_flight_peak cur mx (e # es) = in_flight_peak cur mx es"

definition max_in_flight :: "event list \<Rightarrow> nat" where
  "max_in_flight es = in_flight_peak 0 0 es"

definition error_toast :: "string \<Rightarrow> string \<Rightarrow> event" where
  "error_toast t d = Toast \<lparr>title = t, description = d, destructive = True\<rparr>"

definition plain_toast :: "string \<Rightarrow> string \<Rightarrow> event" where
  "plain_toast t d = Toast \<lparr>title = t, description = d, destructive = False\<rparr>"

section \<open>ChartGenerator: downloadChart\<close>

text \<open>
  The object that is serialised, and what the handler does: the browser saves the
  file \<^verbatim>\<open>${fileName}_chart_${selectedChart}.json\<close> and a toast is shown.
\<close>

definition downloadChart ::
    "string \<Rightarrow> ChartGeneratorProps \<Rightarrow> chart_state \<Rightarrow>
     (string \<times> config_value) list \<times> event list" where
  "downloadChart now props st =
     (chartConfig now props st,
      [SaveAs (fileName props @ ''_chart_'' @ selectedChart st @ ''.json''),
       plain_toast ''Success'' ''Chart configuration downloaded successfully''])"

section \<open>The backend's state\<close>

text \<open>
  The objects of bucket \<^verbatim>\<open>excel-files\<close> by name, and the rows of the tables
  \<^verbatim>\<open>excel_files\<close> and \<^verbatim>\<open>analytics_data\<close>. A call that succeeds has its effect on
  this state; a call that fails leaves it as it was.
\<close>

record analytics_row =
  ad_id :: string
  ad_values :: analytics_values

record backend =
  storage_objects :: "string list"
  excel_files :: "excel_file list"
  analytics_data :: "analytics_row list"

text \<open>\<^verbatim>\<open>storage.from('excel-files').remove(paths)\<close>\<close>

definition storage_remove :: "string list \<Rightarrow> backend \<Rightarrow> backend" where
  "storage_remove paths b =
     b\<lparr>storage_objects := filter (\<lambda>p. p \<notin> set paths) (storage_objects b)\<rparr>"

text \<open>
  \<^verbatim>\<open>from('excel_files').delete().eq('id', fid).eq('user_id', uid)\<close>. The column
  \<^verbatim>\<open>analytics_data.file_id\<close> references \<^verbatim>\<open>excel_files(id)\<close> with
  \<^verbatim>\<open>ON DELETE CASCADE\<close>, so the analytics rows of a deleted file go with it.
\<close>

definition delete_excel_file :: "string \<Rightarrow> string \<Rightarrow> backend \<Rightarrow> backend" where
  "delete_excel_file fid uid b =
     (let hit = (\<lambda>r. ef_id r = fid \<and> ef_user_id r = uid) in
      b\<lparr>excel_files := filter (\<lambda>r. \<not> hit r) (excel_files b),
        analytics_data :=
          (if list_ex hit (excel_files b)
           then filter (\<lambda>a. ad_file_id (ad_values a) \<noteq> fid) (analytics_data b)
           else analytics_data b)\<rparr>)"

text \<open>
  \<^verbatim>\<open>from('analytics_data').upsert(values)\<close> with no \<^verbatim>\<open>onConflict\<close> option is an
  insert whose conflict target is the primary key, column \<^verbatim>\<open>id\<close>. The values carry
  no \<^verbatim>\<open>id\<close>, so the row takes the column's default \<^verbatim>\<open>gen_random_uuid()\<close>, here
  \<open>new_id\<close>. A row with that id is replaced; otherwise the row is added. The table
  has no other unique constraint.
\<close>

definition upsert_analytics ::
    "string \<Rightarrow> analytics_values \<Rightarrow> analytics_row list \<Rightarrow> analytics_row list" where
  "upsert_analytics new_id v rows =
     (if list_ex (\<lambda>r. ad_id r = new_id) rows
      then map (\<lambda>r. if ad_id r = new_id then \<lparr>ad_id = new_id, ad_values = v\<rparr> else r) rows
      else rows @ [\<lparr>ad_id = new_id, ad_values = v\<rparr>])"

section \<open>FileUpload: onDrop\<close>

definition validTypes :: "string list" where
  "validTypes =
    [''application/vnd.openxmlformats-officedocument.spreadsheetml.sheet'',
     ''application/vnd.ms-excel'',
     ''text/csv'']"

text \<open>
  \<open>now\<close> is \<^verbatim>\<open>Date.now()\<close> as the template string prints it; \<open>r_upload\<close> and
  \<open>r_insert\<close> are the backend's answers to the two calls (the second is only read
  when the second call is made).
\<close>

definition onDrop ::
    "user option \<Rightarrow> js_file list \<Rightarrow> string \<Rightarrow> unit response \<Rightarrow> unit response \<Rightarrow> event list" where
  "onDrop usr acceptedFiles now r_upload r_insert =
     (case usr of
        None \<Rightarrow> []
      | Some u \<Rightarrow>
         (case acceptedFiles of
            [] \<Rightarrow> []
          | f # _ \<Rightarrow>
              if file_type f \<notin> set validTypes
              then [error_toast ''Invalid file type''
                      ''Please upload an Excel (.xlsx, .xls) or CSV file.'']
              else
                let fileName = now @ ''-'' @ file_name f;
                    filePath = user_id u @ ''/'' @ fileName;
                    upload = StorageUpload filePath;
                    ins = InsertExcelFile
                      \<lparr>ins_user_id = user_id u, ins_filename = fileName,
                       ins_original_name = file_name f, ins_file_size = file_size f,
                       ins_file_path = filePath, ins_status = ''uploaded''\<rparr>
                in [SetUploading True, SetUploadProgress 0, Issue upload, Settled upload] @
                   (case failure r_upload of
                      Some m \<Rightarrow> [error_toast ''Upload failed'' m]
                    | None \<Rightarrow>
                        [SetUploadProgress 50, Issue ins, Settled ins] @
                        (case failure r_insert of
                           Some m \<Rightarrow> [error_toast ''Upload failed'' m]
                         | None \<Rightarrow>
                             [SetUploadProgress 100,
                              plain_toast ''Success'' ''File uploaded successfully!'',
                              OnUploadComplete])) @
                   [SetUploading False, SetUploadProgress 0]))"

section \<open>FileList: handleDownload and handleDelete\<close>

definition handleDownload :: "excel_file \<Rightarrow> unit response \<Rightarrow> event list" where
  "handleDownload f r_download =
     (let download = StorageDownload (ef_file_path f) in
      [Issue download, Settled download] @
      (case failure r_download of
         Some m \<Rightarrow> [error_toast ''Download failed'' m]
       | None \<Rightarrow>
           [SaveAs (ef_original_name f),
            plain_toast ''Success'' ''File downloaded successfully!'']))"

text \<open>The backend after the handler, and what the handler did.\<close>

definition handleDelete ::
    "user option \<Rightarrow> excel_file \<Rightarrow> unit response \<Rightarrow> unit response \<Rightarrow> backend \<Rightarrow>
     backend \<times> event list" where
  "handleDelete usr f r_remove r_delete b =
     (case usr of
        None \<Rightarrow> (b, [])
      | Some u \<Rightarrow>
          let remove = StorageRemove [ef_file_path f];
              del = DeleteExcelFile (ef_id f) (user_id u)
          in (case failure r_remove of
                Some m \<Rightarrow>
                  (b, [SetDeletingId (Some (ef_id f)), Issue remove, Settled remove,
                       error_toast ''Delete failed'' m, SetDeletingId None])
              | None \<Rightarrow>
                  (case failure r_delete of
                     Some m \<Rightarrow>
                       (storage_remove [ef_file_path f] b,
                        [SetDeletingId (Some (ef_id f)), Issue remove, Settled remove,
                         Issue del, Settled del,
                         error_toast ''Delete failed'' m, SetDeletingId None])
                   | None \<Rightarrow>
                       (delete_excel_file (ef_id f) (user_id u)
                          (storage_remove [ef_file_path f] b),
                        [SetDeletingId (Some (ef_id f)), Issue remove, Settled remove,
                         Issue del, Settled del,
                         plain_toast ''Success'' ''File deleted successfully!'',
                         OnFileDeleted, SetDeletingId None]))))"

section \<open>Dashboard: fetchFiles\<close>

definition fetchFiles :: "user option \<Rightarrow> excel_file list response \<Rightarrow> event list" where
  "fetchFiles usr r_select =
     (case usr of
        None \<Rightarrow> []
      | Some u \<Rightarrow>
          [Issue (SelectExcelFiles (user_id u)), Settled (SelectExcelFiles (user_id u))] @
          (case r_select of
             Success rows \<Rightarrow>
               [SetFiles rows, SetTotalFiles (length rows),
                SetTotalSize (sum_list (map ef_file_size rows))]
           | ErrorResult m \<Rightarrow> [error_toast ''Error'' ''Failed to fetch files'']
           | Rejected m \<Rightarrow> [error_toast ''Error'' ''Failed to fetch files'']) @
          [SetLoading False])"

section \<open>ExcelDataViewer: loadFileData, parseExcelFile, saveAnalyticsData\<close>

text \<open>
  \<open>read_result\<close> is what \<^verbatim>\<open>XLSX.read\<close> does with the downloaded bytes: \<open>None\<close>
  when it throws. \<^verbatim>\<open>parseExcelFile\<close> starts \<^verbatim>\<open>saveAnalyticsData\<close> without awaiting
  it: the second component is the argument it is started with, if it is started.
\<close>

definition parseExcelFile ::
    "(jsnum \<Rightarrow> string) \<Rightarrow> workbook option \<Rightarrow> event list \<times> SheetData list option" where
  "parseExcelFile nts read_result =
     (case read_result of
        None \<Rightarrow> ([error_toast ''Error'' ''Failed to parse Excel file''], None)
      | Some wb \<Rightarrow> ([SetSheets (sheetsData_of nts wb)], Some (sheetsData_of nts wb)))"

definition loadFileData ::
    "(jsnum \<Rightarrow> string) \<Rightarrow> user option \<Rightarrow> string \<Rightarrow> unit response \<Rightarrow> workbook option \<Rightarrow>
     event list \<times> SheetData list option" where
  "loadFileData nts usr file_nm r_download read_result =
     (case usr of
        None \<Rightarrow> ([], None)
      | Some u \<Rightarrow>
          let download = StorageDownload (user_id u @ ''/'' @ file_nm) in
          (case failure r_download of
             Some m \<Rightarrow>
               ([SetLoading True, Issue download, Settled download,
                 error_toast ''Error'' (if m = [] then ''Failed to load file data'' else m),
                 SetLoading False], None)
           | None \<Rightarrow>
               ([SetLoading True, Issue download, Settled download, SetFileData] @
                fst (parseExcelFile nts read_result) @ [SetLoading False],
                snd (parseExcelFile nts read_result))))"

text \<open>
  \<^verbatim>\<open>sheetsData.map(sheet => supabase.from('analytics_data').upsert({...}))\<close> makes one
  call per sheet, and \<^verbatim>\<open>await Promise.all(promises)\<close> waits for all of them together.
  \<open>responses i\<close> is the backend's answer to the call for sheet \<open>i\<close>; a success carries
  the id the database gave the row. The answers are taken in the order of the sheets.
  The first rejection rejects \<^verbatim>\<open>Promise.all\<close>, and the \<^verbatim>\<open>catch\<close> block writes it to
  the console; an answer that is fulfilled with an error is not looked at.
\<close>

fun settle_all :: "nat \<Rightarrow> call list \<Rightarrow> (nat \<Rightarrow> 'a response) \<Rightarrow> bool \<Rightarrow> event list" where
  "settle_all i [] responses caught = []"
| "settle_all i (c # cs) responses caught =
     (case responses i of
        Rejected m \<Rightarrow>
          Settled c # (if caught then [] else [ConsoleError m]) @
          settle_all (Suc i) cs responses True
      | _ \<Rightarrow> Settled c # settle_all (Suc i) cs responses caught)"

fun apply_upserts ::
    "nat \<Rightarrow> analytics_values list \<Rightarrow> (nat \<Rightarrow> string response) \<Rightarrow> analytics_row list \<Rightarrow>
     analytics_row list" where
  "apply_upserts i [] responses rows = rows"
| "apply_upserts i (v # vs) responses rows =
     apply_upserts (Suc i) vs responses
       (case responses i of Success new_id \<Rightarrow> upsert_analytics new_id v rows | _ \<Rightarrow> rows)"

definition saveAnalyticsData ::
    "user option \<Rightarrow> string \<Rightarrow> SheetData list \<Rightarrow> (nat \<Rightarrow> string response) \<Rightarrow> backend \<Rightarrow>
     backend \<times> event list" where
  "saveAnalyticsData usr file_id sheetsData responses b =
     (case usr of
        None \<Rightarrow> (b, [])
      | Some u \<Rightarrow>
          let vals = map (upsert_values (user_id u) file_id) sheetsData in
          (b\<lparr>analytics_data := apply_upserts 0 vals responses (analytics_data b)\<rparr>,
           map (\<lambda>v. Issue (UpsertAnalytics v)) vals @
           settle_all 0 (map UpsertAnalytics vals) responses False))"


section \<open>Properties: the row-level-security policies\<close>

text \<open>
  Claim C1 says that every policy on the three tables is owner-scoped. The policy
  \<^verbatim>\<open>Users can view all profiles\<close> is not: its expression is \<^verbatim>\<open>true\<close>, so a caller
  reads a profile row of another user.
\<close>

theorem rls_profiles_select_not_owner_scoped:
  "\<lparr>policy_name = ''Users can view all profiles'', policy_table = Profiles,
     policy_command = SELECT, policy_expr = Always_true\<rparr> \<in> set policies \<and>
   eval_expr Always_true (Some ''alice'') ''bob'' \<and>
   permitted Profiles SELECT (Some ''alice'') ''bob'' \<and>
   Some ''alice'' \<noteq> Some ''bob''"
  by (simp add: policies_def permitted_def)

lemma policies_exprs:
  "list_all (\<lambda>p. policy_expr p = Uid_is_user_id \<or>
                   (policy_table p, policy_command p) = (Profiles, SELECT)) policies"
  by (simp add: policies_def)

text \<open>
  Claim C1, amended: every policy of the migration on \<^verbatim>\<open>profiles\<close>,
  \<^verbatim>\<open>excel_files\<close> and \<^verbatim>\<open>analytics_data\<close> other than the \<^verbatim>\<open>SELECT\<close> policy of
  \<^verbatim>\<open>profiles\<close> holds only when the row's \<^verbatim>\<open>user_id\<close> is the caller's
  \<^verbatim>\<open>auth.uid()\<close>, so that on every table and command but that one a caller passes
  row-level security only on rows of its own; the \<^verbatim>\<open>SELECT\<close> policy of
  \<^verbatim>\<open>profiles\<close> lets every caller read every profile row.
\<close>

theorem rls_owner_scoped_except_profiles_select:
  "(p \<in> set policies \<longrightarrow> (policy_table p, policy_command p) \<noteq> (Profiles, SELECT) \<longrightarrow>
      eval_expr (policy_expr p) uid owner \<longrightarrow> uid = Some owner) \<and>
   ((t, c) \<noteq> (Profiles, SELECT) \<longrightarrow> permitted t c uid owner \<longrightarrow> uid = Some owner) \<and>
   permitted Profiles SELECT uid owner"
proof -
  have scoped: "policy_expr q = Uid_is_user_id"
    if "q \<in> set policies" "(policy_table q, policy_command q) \<noteq> (Profiles, SELECT)" for q
    using policies_exprs that unfolding list_all_iff by blast
  have one: "uid = Some owner"
    if "p \<in> set policies" "(policy_table p, policy_command p) \<noteq> (Profiles, SELECT)"
       "eval_expr (policy_expr p) uid owner"
    using scoped [OF that(1,2)] that(3) by simp
  have two: "uid = Some owner" if "(t, c) \<noteq> (Profiles, SELECT)" "permitted t c uid owner"
  proof -
    from that(2) obtain q where q: "q \<in> set policies" "policy_table q = t"
      "policy_command q = c" "eval_expr (policy_expr q) uid owner"
      unfolding permitted_def list_ex_iff by blast
    from scoped [OF q(1)] that(1) q(2,3) have "policy_expr q = Uid_is_user_id" by simp
    with q(4) show ?thesis by simp
  qed
  have three: "permitted Profiles SELECT uid owner"
    by (simp add: policies_def permitted_def)
  from one two three show ?thesis by blast
qed

theorem rls_owner_scoped_witness:
  "\<lparr>policy_name = ''Users can delete their own files'', policy_table = Excel_files,
     policy_command = DELETE, policy_expr = Uid_is_user_id\<rparr> \<in> set policies \<and>
   (Excel_files, DELETE) \<noteq> (Profiles, SELECT) \<and>
   eval_expr Uid_is_user_id (Some ''alice'') ''alice'' \<and>
   permitted Excel_files DELETE (Some ''alice'') ''alice'' \<and>
   Some ''alice'' = Some ''alice'' \<and>
   permitted Profiles SELECT (Some ''alice'') ''alice''"
proof -
  let ?p = "\<lparr>policy_name = ''Users can delete their own files'', policy_table = Excel_files,
     policy_command = DELETE, policy_expr = Uid_is_user_id\<rparr>"
  have member: "?p \<in> set policies"
    by (simp add: policies_def)
  have allowed: "permitted Excel_files DELETE (Some ''alice'') ''alice''"
    by (simp add: policies_def permitted_def)
  note inst = rls_owner_scoped_except_profiles_select
      [of ?p "Some ''alice''" "''alice''" Excel_files DELETE]
  from inst member allowed show ?thesis by simp
qed

section \<open>Properties: parseExcelFile and the analytics summary\<close>

lemma parse_sheets_acc:
  "parse_sheets nts wb ns acc = acc @ parse_sheets nts wb ns []"
proof (induction ns arbitrary: acc)
  case Nil show ?case by simp
next
  case (Cons n ns)
  show ?case
  proof (cases "sheet_to_json wb n")
    case None
    then show ?thesis using Cons.IH [of acc] by simp
  next
    case (Some p)
    obtain hs rs where p: "p = (hs, rs)" by (cases p)
    show ?thesis
      using Cons.IH [of "acc @ [\<lparr>name = n, data = map (format_row nts hs) rs,
                                columns = header_columns nts hs\<rparr>]"]
            Cons.IH [of "[\<lparr>name = n, data = map (format_row nts hs) rs,
                          columns = header_columns nts hs\<rparr>]"]
      by (simp add: Some p)
  qed
qed

lemma parse_sheets_map:
  "parse_sheets nts wb ns [] =
     map (\<lambda>(n, hs, rs). \<lparr>name = n, data = map (format_row nts hs) rs,
                          columns = header_columns nts hs\<rparr>)
       (nonempty_sheets wb ns)"
proof (induction ns)
  case Nil show ?case by simp
next
  case (Cons n ns)
  show ?case
  proof (cases "sheet_to_json wb n")
    case None then show ?thesis using Cons.IH by simp
  next
    case (Some p)
    obtain hs rs where p: "p = (hs, rs)" by (cases p)
    show ?thesis using Cons.IH
      parse_sheets_acc [of nts wb ns "[\<lparr>name = n, data = map (format_row nts hs) rs,
                                       columns = header_columns nts hs\<rparr>]"]
      by (simp add: Some p)
  qed
qed

lemma trim_Nil: "trim [] = []" by (simp add: trim_def)

text \<open>A header cell that is a string is kept exactly when it is not empty once trimmed.\<close>

lemma string_header_kept:
  "(truthy (JStr s) \<and> trim (to_string nts (JStr s)) \<noteq> []) = (trim s \<noteq> [])"
  by (auto simp: trim_Nil)

text \<open>
  A header cell that is the number 0 or the boolean false is not among the columns,
  whatever its string is.
\<close>

lemma header_columns_drops_falsy:
  "header_columns nts [Some (JNum (Fin 0)), Some (JBool False), Some (JStr ''a'')] = [JStr ''a'']"
  by (simp add: header_columns_def trim_def is_ws_def)

lemma upsert_values_of_sheets:
  "map (upsert_values uid file_id) (sheetsData_of nts wb) =
     map (sheet_values nts uid file_id) (nonempty_sheets wb (SheetNames wb))"
  by (simp add: sheetsData_of_def parse_sheets_map upsert_values_def sheet_values_def
      header_columns_def split_def comp_def min_def)

lemma calls_issued_issues: "calls_issued (map (\<lambda>v. Issue (f v)) vs @ es) = map f vs @ calls_issued es"
  by (induction vs) simp_all

lemma calls_issued_settle_all: "calls_issued (settle_all i cs rs caught) = []"
proof (induction cs arbitrary: i caught)
  case Nil show ?case by simp
next
  case (Cons c cs)
  show ?case by (cases "rs i") (simp_all add: Cons.IH)
qed

lemma calls_issued_saveAnalyticsData:
  "calls_issued (snd (saveAnalyticsData (Some u) file_id sheets rs b)) =
     map (\<lambda>sheet. UpsertAnalytics (upsert_values (user_id u) file_id sheet)) sheets"
  using calls_issued_issues [of UpsertAnalytics "map (upsert_values (user_id u) file_id) sheets"]
  by (simp add: saveAnalyticsData_def Let_def calls_issued_settle_all comp_def)

lemma upsert_without_id_appends:
  "\<not> list_ex (\<lambda>r. ad_id r = new_id) rows \<Longrightarrow>
   upsert_analytics new_id v rows = rows @ [\<lparr>ad_id = new_id, ad_values = v\<rparr>]"
  by (simp add: upsert_analytics_def)

lemma apply_upserts_fresh:
  "length ids = length vs \<Longrightarrow> distinct ids \<Longrightarrow>
   list_all (\<lambda>i. \<not> list_ex (\<lambda>r. ad_id r = i) rows) ids \<Longrightarrow>
   apply_upserts k vs (\<lambda>i. Success (ids ! (i - k))) rows =
     rows @ map2 (\<lambda>i v. \<lparr>ad_id = i, ad_values = v\<rparr>) ids vs"
proof (induction vs arbitrary: k ids rows)
  case Nil then show ?case by simp
next
  case (Cons v vs)
  from Cons.prems(1) obtain i ids' where ids: "ids = i # ids'"
    by (cases ids) simp_all
  from Cons.prems ids have fresh: "\<not> list_ex (\<lambda>r. ad_id r = i) rows"
    and len: "length ids' = length vs" and dist: "distinct ids'" and notin: "i \<notin> set ids'"
    and rest: "list_all (\<lambda>j. \<not> list_ex (\<lambda>r. ad_id r = j) rows) ids'"
    by simp_all
  have rest': "list_all (\<lambda>j. \<not> list_ex (\<lambda>r. ad_id r = j)
                  (rows @ [\<lparr>ad_id = i, ad_values = v\<rparr>])) ids'"
    using rest notin by (auto simp: list_all_iff list_ex_iff)
  have shift: "apply_upserts (Suc k) vs (\<lambda>j. Success ((i # ids') ! (j - k))) rows' =
               apply_upserts (Suc k) vs (\<lambda>j. Success (ids' ! (j - Suc k))) rows'" for rows'
  proof -
    have gen: "\<forall>j. m \<le> j \<longrightarrow> f j = g j \<Longrightarrow> apply_upserts m ws f rws = apply_upserts m ws g rws"
      for m ws rws and f g :: "nat \<Rightarrow> string response"
      by (induction ws arbitrary: m rws) simp_all
    have "(i # ids') ! (j - k) = ids' ! (j - Suc k)" if "Suc k \<le> j" for j
    proof -
      from that have "j - k = Suc (j - Suc k)" by arith
      then show ?thesis by simp
    qed
    then show ?thesis
      by (intro gen) simp
  qed
  show ?case
    using Cons.IH [OF len dist rest', of "Suc k"]
    by (simp add: ids upsert_without_id_appends [OF fresh] shift)
qed

text \<open>
  In the closed examples of this section no header cell is a number, so no number is
  converted to a string; the examples pass the function that returns \<open>0\<close>, the
  string of the number 0.
\<close>

text \<open>
  Claim C5 says that the saved columns are the trimmed header names. They are not
  trimmed: for a sheet whose header row is the string \<^verbatim>\<open>a\<close> between two spaces on each
  side, and the boolean false, the upsert that \<^verbatim>\<open>saveAnalyticsData\<close> issues has as its
  only column that string with its spaces, while its trimmed form is \<^verbatim>\<open>a\<close>.
\<close>

theorem saveAnalyticsData_columns_untrimmed:
  "calls_issued (snd (saveAnalyticsData (Some \<lparr>user_id = ''u1''\<rparr>) ''f1''
     (sheetsData_of (\<lambda>n. ''0'')
       \<lparr>SheetNames = [''Sheet1''],
        sheet_to_json = (\<lambda>n. if n = ''Sheet1''
          then Some ([Some (JStr ''  a  ''), Some (JBool False)], [[JNum (Fin 1), JStr ''x'']])
          else None)\<rparr>)
     (\<lambda>i. Success ''id-1'')
     \<lparr>storage_objects = [], excel_files = [], analytics_data = []\<rparr>)) =
     [UpsertAnalytics
        \<lparr>ad_user_id = ''u1'', ad_file_id = ''f1'', ad_sheet_name = ''Sheet1'',
         ad_data = \<lparr>summary_columns = [JStr ''  a  ''], rowCount = 1,
                    sampleData = [[(''  a  '', JNum (Fin 1)), (''false'', JStr ''x'')]]\<rparr>\<rparr>] \<and>
   trim ''  a  '' = ''a'' \<and>
   JStr ''  a  '' \<noteq> JStr ''a''"
  by (simp add: saveAnalyticsData_def sheetsData_of_def upsert_values_def header_columns_def
      format_row_def cell_at_def js_or_def trim_def is_ws_def Let_def)

text \<open>
  Claim C5, amended: for every workbook, \<^verbatim>\<open>saveAnalyticsData\<close> issues, for a signed-in
  user, exactly one upsert for each sheet whose \<^verbatim>\<open>sheet_to_json\<close> output is not empty,
  in workbook order, with the user, the file, the sheet's name and a summary of exactly
  three parts: as \<^verbatim>\<open>columns\<close> the header cells that are truthy and whose string is not
  empty once trimmed, each kept as the sheet has it (not trimmed); as \<^verbatim>\<open>rowCount\<close>
  the number of rows after the header row; as \<^verbatim>\<open>sampleData\<close> the first
  \<open>min 5 rowCount\<close> formatted data rows. When every upsert succeeds and the database
  gives the rows ids that are new and different from each other, the rows added to
  \<^verbatim>\<open>analytics_data\<close> are these values under those ids.
\<close>

theorem saveAnalyticsData_row_contents:
  "calls_issued (snd (saveAnalyticsData (Some u) file_id (sheetsData_of nts wb) responses b)) =
     map (\<lambda>sheet. UpsertAnalytics (sheet_values nts (user_id u) file_id sheet))
       (nonempty_sheets wb (SheetNames wb)) \<and>
   (length ids = length (nonempty_sheets wb (SheetNames wb)) \<longrightarrow> distinct ids \<longrightarrow>
    list_all (\<lambda>i. \<not> list_ex (\<lambda>r. ad_id r = i) (analytics_data b)) ids \<longrightarrow>
    analytics_data
      (fst (saveAnalyticsData (Some u) file_id (sheetsData_of nts wb)
             (\<lambda>i. Success (ids ! i)) b)) =
      analytics_data b @
      map2 (\<lambda>i sheet. \<lparr>ad_id = i, ad_values = sheet_values nts (user_id u) file_id sheet\<rparr>)
        ids (nonempty_sheets wb (SheetNames wb)))"
proof (intro conjI impI)
  show "calls_issued (snd (saveAnalyticsData (Some u) file_id (sheetsData_of nts wb) responses b)) =
     map (\<lambda>sheet. UpsertAnalytics (sheet_values nts (user_id u) file_id sheet))
       (nonempty_sheets wb (SheetNames wb))"
  proof -
    have "map UpsertAnalytics (map (upsert_values (user_id u) file_id) (sheetsData_of nts wb)) =
          map UpsertAnalytics
            (map (sheet_values nts (user_id u) file_id) (nonempty_sheets wb (SheetNames wb)))"
      by (simp only: upsert_values_of_sheets)
    then show ?thesis
      by (simp add: calls_issued_saveAnalyticsData comp_def)
  qed
next
  assume len: "length ids = length (nonempty_sheets wb (SheetNames wb))"
    and dist: "distinct ids"
    and fresh: "list_all (\<lambda>i. \<not> list_ex (\<lambda>r. ad_id r = i) (analytics_data b)) ids"
  let ?vs = "map (upsert_values (user_id u) file_id) (sheetsData_of nts wb)"
  have vs: "?vs = map (sheet_values nts (user_id u) file_id) (nonempty_sheets wb (SheetNames wb))"
    by (rule upsert_values_of_sheets)
  have "length ids = length ?vs" using len vs by simp
  from apply_upserts_fresh [OF this dist fresh, of 0]
  have "apply_upserts 0 ?vs (\<lambda>i. Success (ids ! i)) (analytics_data b) =
          analytics_data b @ map2 (\<lambda>i v. \<lparr>ad_id = i, ad_values = v\<rparr>) ids ?vs"
    by simp
  then show "analytics_data
      (fst (saveAnalyticsData (Some u) file_id (sheetsData_of nts wb)
             (\<lambda>i. Success (ids ! i)) b)) =
      analytics_data b @
      map2 (\<lambda>i sheet. \<lparr>ad_id = i, ad_values = sheet_values nts (user_id u) file_id sheet\<rparr>)
        ids (nonempty_sheets wb (SheetNames wb))"
    unfolding vs by (simp add: saveAnalyticsData_def Let_def vs zip_map2 split_def)
qed

theorem saveAnalyticsData_row_contents_witness:
  "length [''id-1''] =
     length (nonempty_sheets
       \<lparr>SheetNames = [''Empty'', ''Sheet1''],
        sheet_to_json = (\<lambda>n. if n = ''Sheet1''
          then Some ([Some (JStr ''  a  ''), Some (JBool False)], [[JNum (Fin 1), JStr ''x'']])
          else None)\<rparr> [''Empty'', ''Sheet1'']) \<and>
   distinct [''id-1''] \<and>
   list_all (\<lambda>i. \<not> list_ex (\<lambda>r. ad_id r = i) []) [''id-1''] \<and>
   analytics_data
     (fst (saveAnalyticsData (Some \<lparr>user_id = ''u1''\<rparr>) ''f1''
        (sheetsData_of (\<lambda>n. ''0'')
          \<lparr>SheetNames = [''Empty'', ''Sheet1''],
           sheet_to_json = (\<lambda>n. if n = ''Sheet1''
             then Some ([Some (JStr ''  a  ''), Some (JBool False)], [[JNum (Fin 1), JStr ''x'']])
             else None)\<rparr>)
        (\<lambda>i. Success ([''id-1''] ! i))
        \<lparr>storage_objects = [], excel_files = [], analytics_data = []\<rparr>)) =
     [\<lparr>ad_id = ''id-1'',
       ad_values =
         \<lparr>ad_user_id = ''u1'', ad_file_id = ''f1'', ad_sheet_name = ''Sheet1'',
          ad_data = \<lparr>summary_columns = [JStr ''  a  ''], rowCount = 1,
                     sampleData = [[(''  a  '', JNum (Fin 1)), (''false'', JStr ''x'')]]\<rparr>\<rparr>\<rparr>]"
  using saveAnalyticsData_row_contents
    [where u = "\<lparr>user_id = ''u1''\<rparr>" and file_id = "''f1''" and nts = "\<lambda>n. ''0''"
       and wb = "\<lparr>SheetNames = [''Empty'', ''Sheet1''],
           sheet_to_json = (\<lambda>n. if n = ''Sheet1''
             then Some ([Some (JStr ''  a  ''), Some (JBool False)], [[JNum (Fin 1), JStr ''x'']])
             else None)\<rparr>"
       and ids = "[''id-1'']"
       and b = "\<lparr>storage_objects = [], excel_files = [], analytics_data = []\<rparr>"]
  by (simp add: sheet_values_def format_row_def cell_at_def js_or_def trim_def is_ws_def)

lemma get_set_prop: "get_prop (set_prop k v ob) k' = (if k' = k then v else get_prop ob k')"
  by (induction ob) (auto simp: get_prop_def)












section \<open>Properties: ChartGenerator\<close>

lemma length_generateChartData: "length (generateChartData pf rows x y) \<le> 20"
  by (simp add: generateChartData_def)

lemma or_zero_not_NaN: "or_zero n \<noteq> NaN"
  by (simp add: or_zero_def)

lemma chart_item_x:
  "x \<noteq> y \<Longrightarrow> x \<noteq> ''value'' \<Longrightarrow> get_prop (chart_item pf x y row) x = get_prop row x"
  by (simp add: chart_item_def get_set_prop del: set_prop.simps)

lemma chart_item_y:
  "y \<noteq> ''name'' \<Longrightarrow>
   get_prop (chart_item pf x y row) y = JNum (or_zero (pf (get_prop row y)))"
  by (simp add: chart_item_def get_set_prop del: set_prop.simps)

lemma chart_item_kept:
  assumes "x \<noteq> y" "x \<noteq> ''value''" "y \<noteq> ''name''"
  shows "(truthy (get_prop (chart_item pf x y row) x) \<and>
          \<not> isNaN (get_prop (chart_item pf x y row) y)) = truthy (get_prop row x)"
  using assms by (simp add: chart_item_x chart_item_y or_zero_not_NaN)

text \<open>
  When the two axes are different columns, the x axis is not the column \<^verbatim>\<open>value\<close> and
  the y axis is not the column \<^verbatim>\<open>name\<close>, the chart data are the points of the first
  twenty rows whose x cell is truthy, and the y value of every point is a number other
  than NaN.
\<close>

lemma generateChartData_distinct_axes:
  assumes "x \<noteq> y" "x \<noteq> ''value''" "y \<noteq> ''name''"
  shows "generateChartData pf rows x y =
           take 20 (map (chart_item pf x y) (filter (\<lambda>row. truthy (get_prop row x)) rows))"
  unfolding generateChartData_def filter_map comp_def chart_item_kept [OF assms] ..

lemma generateChartData_y_numeric:
  assumes "y \<noteq> ''name''" "item \<in> set (generateChartData pf rows x y)"
  shows "\<exists>n. get_prop item y = JNum n \<and> n \<noteq> NaN"
proof -
  from assms(2) have "item \<in> set (map (chart_item pf x y) rows)"
    unfolding generateChartData_def by (auto dest: in_set_takeD)
  then obtain row where "item = chart_item pf x y row" by auto
  then show ?thesis
    using assms(1) by (simp add: chart_item_y or_zero_not_NaN)
qed

lemma string_numeric_Paris: "\<not> string_numeric ''Paris''"
  by (simp add: string_numeric_def trim_def is_ws_def str_decimal_literal_def
      non_decimal_literal_def drop_sign_def unsigned_decimal_def is_digit_def)

text \<open>
  Claim C9 says that for every choice of the two columns every point has a numeric y
  value and the \<^verbatim>\<open>isNaN\<close> filter removes no point. With the column \<^verbatim>\<open>name\<close> as y
  axis the property \<^verbatim>\<open>name: row[xAxis]\<close> of the object literal replaces the parsed y
  value by the x cell. For the row with city \<^verbatim>\<open>Paris\<close> and name \<^verbatim>\<open>Alice\<close>, x axis
  \<^verbatim>\<open>city\<close> and y axis \<^verbatim>\<open>name\<close>, whatever \<^verbatim>\<open>parseFloat\<close> returns: the x cell is
  truthy, the point's y value is the string \<^verbatim>\<open>Paris\<close>, and the filter removes the point.
\<close>

theorem generateChartData_name_collision:
  "generateChartData pf [[(''city'', JStr ''Paris''), (''name'', JStr ''Alice'')]]
     ''city'' ''name'' = [] \<and>
   truthy (get_prop [(''city'', JStr ''Paris''), (''name'', JStr ''Alice'')] ''city'') \<and>
   chart_item pf ''city'' ''name'' [(''city'', JStr ''Paris''), (''name'', JStr ''Alice'')] =
     [(''city'', JStr ''Paris''), (''name'', JStr ''Paris''),
      (''value'', JNum (or_zero (pf (JStr ''Alice''))))]"
  by (simp add: generateChartData_def chart_item_def get_prop_def string_numeric_Paris)

lemma chart_effect_length:
  "length (chartData st) \<le> 20 \<Longrightarrow> length (chartData (chart_effect pf props st)) \<le> 20"
  by (simp add: chart_effect_def length_generateChartData)

lemma chart_step_length:
  "length (chartData (snd ps)) \<le> 20 \<Longrightarrow> length (chartData (snd (chart_step pf ps ev))) \<le> 20"
  by (cases ps; cases ev) (simp_all add: chart_effect_length)

lemma foldl_chart_step_length:
  "length (chartData (snd ps)) \<le> 20 \<Longrightarrow>
   length (chartData (snd (foldl (chart_step pf) ps evs))) \<le> 20"
  by (induction evs arbitrary: ps) (simp_all add: chart_step_length)

lemma chart_run_length: "length (chartData (snd (chart_run pf props0 evs))) \<le> 20"
  unfolding chart_run_def
  by (rule foldl_chart_step_length) (simp add: chart_effect_length chart_init_def)

text \<open>The effect changes nothing but the chart data.\<close>

lemma chart_effect_selections:
  "selectedChart (chart_effect pf props st) = selectedChart st \<and>
   xAxis (chart_effect pf props st) = xAxis st \<and>
   yAxis (chart_effect pf props st) = yAxis st"
  by (simp add: chart_effect_def)

text \<open>The state holds what the events set last.\<close>

lemma foldl_chart_step_selections:
  "fst (foldl (chart_step pf) (props, st) evs) = current_props props evs \<and>
   selectedChart (snd (foldl (chart_step pf) (props, st) evs)) =
     current_chart (selectedChart st) evs \<and>
   xAxis (snd (foldl (chart_step pf) (props, st) evs)) = current_x (xAxis st) evs \<and>
   yAxis (snd (foldl (chart_step pf) (props, st) evs)) = current_y (yAxis st) evs"
proof (induction evs arbitrary: props st)
  case Nil show ?case by simp
next
  case (Cons ev evs)
  show ?case
    by (cases ev) (simp_all add: Cons.IH chart_effect_selections)
qed

lemma chart_effect_current: "chart_data_current pf (props, chart_effect pf props st)"
  by (simp add: chart_data_current_def chart_effect_def)

lemma chart_step_current:
  "chart_data_current pf ps \<Longrightarrow> chart_data_current pf (chart_step pf ps ev)"
proof (cases ps)
  case (Pair props st)
  assume "chart_data_current pf ps"
  with Pair show ?thesis
    by (cases ev) (simp_all add: chart_effect_current, simp add: chart_data_current_def)
qed

lemma foldl_chart_step_current:
  "chart_data_current pf ps \<Longrightarrow> chart_data_current pf (foldl (chart_step pf) ps evs)"
  by (induction evs arbitrary: ps) (simp_all add: chart_step_current)

lemma chart_run_current: "chart_data_current pf (chart_run pf props0 evs)"
  unfolding chart_run_def
  by (rule foldl_chart_step_current) (rule chart_effect_current)

lemma chart_run_selections:
  "fst (chart_run pf props0 evs) = current_props props0 evs \<and>
   selectedChart (snd (chart_run pf props0 evs)) = current_chart ''bar'' evs \<and>
   xAxis (snd (chart_run pf props0 evs)) = current_x [] evs \<and>
   yAxis (snd (chart_run pf props0 evs)) = current_y [] evs"
  using foldl_chart_step_selections [of pf props0 "chart_effect pf props0 chart_init" evs]
  by (simp add: chart_run_def chart_effect_selections chart_init_def)

text \<open>
  Claim C7: let a ChartGenerator be mounted and go through any sequence of selections
  and re-renders. The object \<^verbatim>\<open>downloadChart\<close> then exports has exactly the six
  properties \<^verbatim>\<open>fileName\<close>, \<^verbatim>\<open>chartType\<close>, \<^verbatim>\<open>xAxis\<close>, \<^verbatim>\<open>yAxis\<close>, \<^verbatim>\<open>data\<close> and
  \<^verbatim>\<open>generatedAt\<close>, in this order: the file name of the props rendered last, the chart
  type and the axes the user selected last (initially \<^verbatim>\<open>bar\<close> and no axis), the chart
  data of the component's state, and the time of the export. The chart data have at
  most 20 entries, and whenever both axes are selected and the sheet has rows they are
  the data generated from the current rows and the current axes.
\<close>

theorem downloadChart_config:
  "fst (downloadChart now (fst (chart_run pf props0 evs)) (snd (chart_run pf props0 evs))) =
     [(''fileName'', CString (fileName (current_props props0 evs))),
      (''chartType'', CString (current_chart ''bar'' evs)),
      (''xAxis'', CString (current_x [] evs)),
      (''yAxis'', CString (current_y [] evs)),
      (''data'', CRows (chartData (snd (chart_run pf props0 evs)))),
      (''generatedAt'', CString now)] \<and>
   length (chartData (snd (chart_run pf props0 evs))) \<le> 20 \<and>
   (current_x [] evs \<noteq> [] \<longrightarrow> current_y [] evs \<noteq> [] \<longrightarrow>
    chart_rows (current_props props0 evs) \<noteq> [] \<longrightarrow>
    chartData (snd (chart_run pf props0 evs)) =
      generateChartData pf (chart_rows (current_props props0 evs))
        (current_x [] evs) (current_y [] evs))"
  using chart_run_current [of pf props0 evs] chart_run_selections [of pf props0 evs]
  by (simp add: downloadChart_def chartConfig_def chart_run_length chart_data_current_def)

text \<open>
  In the example the y cells are numbers, and \<^verbatim>\<open>parseFloat\<close> of a number is that
  number; the example passes the function that returns it.
\<close>

theorem downloadChart_config_witness:
  "current_x [] [SetXAxis ''city'', SetSelectedChart ''pie'', SetYAxis ''pop''] \<noteq> [] \<and>
   current_y [] [SetXAxis ''city'', SetSelectedChart ''pie'', SetYAxis ''pop''] \<noteq> [] \<and>
   chart_rows (current_props
     \<lparr>fileId = ''f1'', fileName = ''Sheet1'', chart_columns = [''city'', ''pop''],
      chart_rows = [[(''city'', JStr ''Paris''), (''pop'', JNum (Fin 2))],
                    [(''city'', JStr []), (''pop'', JNum (Fin 5))]]\<rparr>
     [SetXAxis ''city'', SetSelectedChart ''pie'', SetYAxis ''pop'']) \<noteq> [] \<and>
   fst (downloadChart ''2025-07-02T17:11:43.000Z''
     (fst (chart_run (\<lambda>v. case v of JNum n \<Rightarrow> n | _ \<Rightarrow> NaN)
        \<lparr>fileId = ''f1'', fileName = ''Sheet1'', chart_columns = [''city'', ''pop''],
         chart_rows = [[(''city'', JStr ''Paris''), (''pop'', JNum (Fin 2))],
                       [(''city'', JStr []), (''pop'', JNum (Fin 5))]]\<rparr>
        [SetXAxis ''city'', SetSelectedChart ''pie'', SetYAxis ''pop'']))
     (snd (chart_run (\<lambda>v. case v of JNum n \<Rightarrow> n | _ \<Rightarrow> NaN)
        \<lparr>fileId = ''f1'', fileName = ''Sheet1'', chart_columns = [''city'', ''pop''],
         chart_rows = [[(''city'', JStr ''Paris''), (''pop'', JNum (Fin 2))],
                       [(''city'', JStr []), (''pop'', JNum (Fin 5))]]\<rparr>
        [SetXAxis ''city'', SetSelectedChart ''pie'', SetYAxis ''pop'']))) =
     [(''fileName'', CString ''Sheet1''),
      (''chartType'', CString ''pie''),
      (''xAxis'', CString ''city''),
      (''yAxis'', CString ''pop''),
      (''data'', CRows [[(''city'', JStr ''Paris''), (''pop'', JNum (Fin 2)),
                         (''name'', JStr ''Paris''), (''value'', JNum (Fin 2))]]),
      (''generatedAt'', CString ''2025-07-02T17:11:43.000Z'')]"
proof -
  note inst = downloadChart_config
    [where now = "''2025-07-02T17:11:43.000Z''"
       and pf = "\<lambda>v. case v of JNum n \<Rightarrow> n | _ \<Rightarrow> NaN"
       and ?props0.0 = "\<lparr>fileId = ''f1'', fileName = ''Sheet1'', chart_columns = [''city'', ''pop''],
         chart_rows = [[(''city'', JStr ''Paris''), (''pop'', JNum (Fin 2))],
                       [(''city'', JStr []), (''pop'', JNum (Fin 5))]]\<rparr>"
       and evs = "[SetXAxis ''city'', SetSelectedChart ''pie'', SetYAxis ''pop'']"]
  have gen: "generateChartData (\<lambda>v. case v of JNum n \<Rightarrow> n | _ \<Rightarrow> NaN)
      [[(''city'', JStr ''Paris''), (''pop'', JNum (Fin 2))],
       [(''city'', JStr []), (''pop'', JNum (Fin 5))]] ''city'' ''pop'' =
     [[(''city'', JStr ''Paris''), (''pop'', JNum (Fin 2)),
       (''name'', JStr ''Paris''), (''value'', JNum (Fin 2))]]"
    by (simp add: generateChartData_def chart_item_def get_prop_def or_zero_def)
  from inst show ?thesis by (simp add: gen)
qed

section \<open>Properties: requests in flight\<close>

lemma peak_issues:
  "cur \<le> mx \<Longrightarrow>
   in_flight_peak cur mx (map (\<lambda>v. Issue (f v)) vs @ rest) =
     in_flight_peak (cur + length vs) (max mx (cur + length vs)) rest"
proof (induction vs arbitrary: cur mx)
  case Nil then show ?case by (simp add: max_def)
next
  case (Cons v vs)
  have "Suc cur \<le> max mx (Suc cur)" by simp
  from Cons.IH [OF this] show ?case
    by (simp add: max.assoc)
qed

lemma peak_settle_all: "in_flight_peak cur mx (settle_all i cs rs caught) = mx"
proof (induction cs arbitrary: i cur caught)
  case Nil show ?case by simp
next
  case (Cons c cs)
  show ?case by (cases "rs i") (simp_all add: Cons.IH)
qed

lemma max_in_flight_saveAnalyticsData:
  "max_in_flight (snd (saveAnalyticsData (Some u) file_id sheets rs b)) = length sheets"
  using peak_issues [of 0 0 UpsertAnalytics "map (upsert_values (user_id u) file_id) sheets"]
  by (simp add: saveAnalyticsData_def max_in_flight_def Let_def peak_settle_all comp_def)

lemma max_in_flight_onDrop: "max_in_flight (onDrop usr fs now r1 r2) \<le> 1"
  by (cases usr; cases fs; cases r1; cases r2)
     (simp_all add: onDrop_def max_in_flight_def Let_def error_toast_def plain_toast_def)

lemma max_in_flight_handleDownload: "max_in_flight (handleDownload f r) \<le> 1"
  by (cases r)
     (simp_all add: handleDownload_def max_in_flight_def Let_def error_toast_def plain_toast_def)

lemma max_in_flight_handleDelete: "max_in_flight (snd (handleDelete usr f r1 r2 b)) \<le> 1"
  by (cases usr; cases r1; cases r2)
     (simp_all add: handleDelete_def max_in_flight_def Let_def error_toast_def plain_toast_def)

lemma max_in_flight_fetchFiles: "max_in_flight (fetchFiles usr r) \<le> 1"
  by (cases usr; cases r)
     (simp_all add: fetchFiles_def max_in_flight_def error_toast_def)

lemma max_in_flight_loadFileData: "max_in_flight (fst (loadFileData nts usr fnm r rr)) \<le> 1"
  by (cases usr; cases r; cases rr)
     (simp_all add: loadFileData_def parseExcelFile_def max_in_flight_def Let_def error_toast_def)

text \<open>
  Claim C3 says that no two backend requests are ever in flight together. For a
  workbook of two sheets \<^verbatim>\<open>saveAnalyticsData\<close> issues both upserts before either has
  settled.
\<close>

theorem saveAnalyticsData_two_in_flight:
  "max_in_flight (snd (saveAnalyticsData (Some \<lparr>user_id = ''u1''\<rparr>) ''f1''
     [\<lparr>name = ''Sheet1'', data = [], columns = [JStr ''a'']\<rparr>,
      \<lparr>name = ''Sheet2'', data = [], columns = [JStr ''b'']\<rparr>]
     (\<lambda>i. Success (if i = 0 then ''id-1'' else ''id-2''))
     \<lparr>storage_objects = [], excel_files = [], analytics_data = []\<rparr>)) = 2 \<and>
   take 2 (snd (saveAnalyticsData (Some \<lparr>user_id = ''u1''\<rparr>) ''f1''
     [\<lparr>name = ''Sheet1'', data = [], columns = [JStr ''a'']\<rparr>,
      \<lparr>name = ''Sheet2'', data = [], columns = [JStr ''b'']\<rparr>]
     (\<lambda>i. Success (if i = 0 then ''id-1'' else ''id-2''))
     \<lparr>storage_objects = [], excel_files = [], analytics_data = []\<rparr>)) =
     [Issue (UpsertAnalytics \<lparr>ad_user_id = ''u1'', ad_file_id = ''f1'', ad_sheet_name = ''Sheet1'',
        ad_data = \<lparr>summary_columns = [JStr ''a''], rowCount = 0, sampleData = []\<rparr>\<rparr>),
      Issue (UpsertAnalytics \<lparr>ad_user_id = ''u1'', ad_file_id = ''f1'', ad_sheet_name = ''Sheet2'',
        ad_data = \<lparr>summary_columns = [JStr ''b''], rowCount = 0, sampleData = []\<rparr>\<rparr>)]"
  by (simp add: saveAnalyticsData_def max_in_flight_def upsert_values_def Let_def)

text \<open>
  Claim C3, amended: within one run of \<^verbatim>\<open>onDrop\<close>, \<^verbatim>\<open>handleDownload\<close>,
  \<^verbatim>\<open>handleDelete\<close>, \<^verbatim>\<open>fetchFiles\<close> or \<^verbatim>\<open>loadFileData\<close> each backend call is
  awaited before the next is issued, so at most one request is in flight;
  \<^verbatim>\<open>saveAnalyticsData\<close> issues one upsert per sheet and awaits them together, so for
  a signed-in user as many requests are in flight at once as there are sheets.
\<close>

theorem requests_in_flight:
  "max_in_flight (onDrop usr acceptedFiles now r_upload r_insert) \<le> 1 \<and>
   max_in_flight (handleDownload f r_download) \<le> 1 \<and>
   max_in_flight (snd (handleDelete usr f r_remove r_delete b)) \<le> 1 \<and>
   max_in_flight (fetchFiles usr r_select) \<le> 1 \<and>
   max_in_flight (fst (loadFileData nts usr file_nm r_download read_result)) \<le> 1 \<and>
   max_in_flight (snd (saveAnalyticsData (Some u) file_id sheetsData responses b)) =
     length sheetsData"
  by (intro conjI max_in_flight_onDrop max_in_flight_handleDownload max_in_flight_handleDelete
      max_in_flight_fetchFiles max_in_flight_loadFileData max_in_flight_saveAnalyticsData)

section \<open>Properties: the calls of onDrop\<close>

lemma calls_issued_onDrop:
  "file_type f \<in> set validTypes \<Longrightarrow>
   calls_issued (onDrop (Some u) (f # rest) now r_upload r_insert) =
     StorageUpload (user_id u @ ''/'' @ now @ ''-'' @ file_name f) #
     (if failure r_upload = None
      then [InsertExcelFile
              \<lparr>ins_user_id = user_id u, ins_filename = now @ ''-'' @ file_name f,
               ins_original_name = file_name f, ins_file_size = file_size f,
               ins_file_path = user_id u @ ''/'' @ now @ ''-'' @ file_name f,
               ins_status = ''uploaded''\<rparr>]
      else [])"
  by (cases r_upload; cases r_insert)
     (simp_all add: onDrop_def Let_def error_toast_def plain_toast_def)

text \<open>
  Claim C6 says that the upload step issues exactly one backend call for every
  accepted file. For an accepted file whose upload succeeds \<^verbatim>\<open>onDrop\<close> issues two: the
  upload to storage and the insert of the metadata row.
\<close>

theorem onDrop_two_calls:
  "calls_issued (onDrop (Some \<lparr>user_id = ''u1''\<rparr>)
      [\<lparr>file_name = ''a.csv'', file_type = ''text/csv'', file_size = 10\<rparr>]
      ''1700000000000'' (Success ()) (Success ())) =
     [StorageUpload ''u1/1700000000000-a.csv'',
      InsertExcelFile
        \<lparr>ins_user_id = ''u1'', ins_filename = ''1700000000000-a.csv'',
         ins_original_name = ''a.csv'', ins_file_size = 10,
         ins_file_path = ''u1/1700000000000-a.csv'', ins_status = ''uploaded''\<rparr>] \<and>
   length (calls_issued (onDrop (Some \<lparr>user_id = ''u1''\<rparr>)
      [\<lparr>file_name = ''a.csv'', file_type = ''text/csv'', file_size = 10\<rparr>]
      ''1700000000000'' (Success ()) (Success ()))) = 2"
  by (simp add: onDrop_def validTypes_def Let_def plain_toast_def)

text \<open>
  Claim C6, amended: for a signed-in user and an accepted file (the first dropped file,
  of a valid type), \<^verbatim>\<open>onDrop\<close> issues exactly one storage upload and, only when that
  upload succeeded, exactly one further call, the insert of the file's row into
  \<^verbatim>\<open>excel_files\<close>.
\<close>

theorem onDrop_calls:
  "usr = Some u \<Longrightarrow> acceptedFiles = f # rest \<Longrightarrow> file_type f \<in> set validTypes \<Longrightarrow>
   calls_issued (onDrop usr acceptedFiles now r_upload r_insert) =
     StorageUpload (user_id u @ ''/'' @ now @ ''-'' @ file_name f) #
     (if failure r_upload = None
      then [InsertExcelFile
              \<lparr>ins_user_id = user_id u, ins_filename = now @ ''-'' @ file_name f,
               ins_original_name = file_name f, ins_file_size = file_size f,
               ins_file_path = user_id u @ ''/'' @ now @ ''-'' @ file_name f,
               ins_status = ''uploaded''\<rparr>]
      else [])"
  by (simp add: calls_issued_onDrop)

theorem onDrop_calls_witness:
  "Some \<lparr>user_id = ''u1''\<rparr> = Some \<lparr>user_id = ''u1''\<rparr> \<and>
   [\<lparr>file_name = ''a.csv'', file_type = ''text/csv'', file_size = 10\<rparr>] =
     \<lparr>file_name = ''a.csv'', file_type = ''text/csv'', file_size = 10\<rparr> # [] \<and>
   file_type \<lparr>file_name = ''a.csv'', file_type = ''text/csv'', file_size = 10\<rparr>
     \<in> set validTypes \<and>
   calls_issued (onDrop (Some \<lparr>user_id = ''u1''\<rparr>)
      [\<lparr>file_name = ''a.csv'', file_type = ''text/csv'', file_size = 10\<rparr>]
      ''1700000000000'' (ErrorResult ''The resource already exists'') (Success ())) =
     [StorageUpload ''u1/1700000000000-a.csv'']"
proof -
  have valid: "file_type \<lparr>file_name = ''a.csv'', file_type = ''text/csv'', file_size = 10\<rparr>
     \<in> set validTypes"
    by (simp add: validTypes_def)
  from onDrop_calls [OF refl refl valid, of "\<lparr>user_id = ''u1''\<rparr>" "[]" "''1700000000000''"
      "ErrorResult ''The resource already exists''" "Success ()"] valid
  show ?thesis by simp
qed

section \<open>Properties: failures and toasts\<close>






















section \<open>Properties: handleDelete\<close>

lemma calls_issued_handleDelete:
  "calls_issued (snd (handleDelete (Some u) f r_remove r_delete b)) =
     StorageRemove [ef_file_path f] #
     (if failure r_remove = None then [DeleteExcelFile (ef_id f) (user_id u)] else [])"
  by (cases r_remove; cases r_delete)
     (simp_all add: handleDelete_def Let_def error_toast_def plain_toast_def)

lemma handleDelete_remove_settles_first:
  "Issue (DeleteExcelFile (ef_id f) (user_id u))
     \<in> set (snd (handleDelete (Some u) f r_remove r_delete b)) \<Longrightarrow>
   Settled (StorageRemove [ef_file_path f])
     \<in> set (takeWhile (\<lambda>e. e \<noteq> Issue (DeleteExcelFile (ef_id f) (user_id u)))
          (snd (handleDelete (Some u) f r_remove r_delete b)))"
  by (cases r_remove; cases r_delete)
     (simp_all add: handleDelete_def Let_def error_toast_def plain_toast_def)

lemma handleDelete_remove_fails:
  "failure r_remove \<noteq> None \<Longrightarrow> fst (handleDelete (Some u) f r_remove r_delete b) = b"
  by (cases r_remove) (simp_all add: handleDelete_def Let_def)

lemma handleDelete_delete_fails:
  "failure r_remove = None \<Longrightarrow> failure r_delete \<noteq> None \<Longrightarrow>
   fst (handleDelete (Some u) f r_remove r_delete b) = storage_remove [ef_file_path f] b"
  by (cases r_remove; cases r_delete) (simp_all add: handleDelete_def Let_def)

lemma storage_remove_effect:
  "excel_files (storage_remove ps b) = excel_files b \<and>
   analytics_data (storage_remove ps b) = analytics_data b \<and>
   set (storage_objects (storage_remove ps b)) = set (storage_objects b) - set ps"
  by (auto simp: storage_remove_def)

text \<open>
  Claim C10: for a signed-in user \<^verbatim>\<open>handleDelete\<close> issues the removal of the storage
  object first and the delete of the metadata row only after the removal has settled,
  and only if it succeeded. When the removal fails the backend is as it was, the
  \<^verbatim>\<open>excel_files\<close> row included. When the removal succeeds and the delete fails, the
  rows of \<^verbatim>\<open>excel_files\<close> are as they were and the object is gone from storage; the
  removal and the delete are the only calls issued, so nothing restores it.
\<close>

theorem handleDelete_order_and_failures:
  "calls_issued (snd (handleDelete (Some u) f r_remove r_delete b)) =
     StorageRemove [ef_file_path f] #
     (if failure r_remove = None then [DeleteExcelFile (ef_id f) (user_id u)] else []) \<and>
   (Issue (DeleteExcelFile (ef_id f) (user_id u))
      \<in> set (snd (handleDelete (Some u) f r_remove r_delete b)) \<longrightarrow>
    Settled (StorageRemove [ef_file_path f])
      \<in> set (takeWhile (\<lambda>e. e \<noteq> Issue (DeleteExcelFile (ef_id f) (user_id u)))
           (snd (handleDelete (Some u) f r_remove r_delete b)))) \<and>
   (failure r_remove1 \<noteq> None \<longrightarrow>
    fst (handleDelete (Some u) f r_remove1 r_delete1 b) = b) \<and>
   (failure r_remove2 = None \<longrightarrow> failure r_delete2 \<noteq> None \<longrightarrow>
    excel_files (fst (handleDelete (Some u) f r_remove2 r_delete2 b)) = excel_files b \<and>
    set (storage_objects (fst (handleDelete (Some u) f r_remove2 r_delete2 b))) =
      set (storage_objects b) - {ef_file_path f})"
  by (intro conjI impI calls_issued_handleDelete handleDelete_remove_settles_first
      handleDelete_remove_fails)
     (simp_all add: handleDelete_delete_fails storage_remove_effect)

theorem handleDelete_witness:
  "Issue (DeleteExcelFile ''f1'' ''u1'')
     \<in> set (snd (handleDelete (Some \<lparr>user_id = ''u1''\<rparr>)
          \<lparr>ef_id = ''f1'', ef_user_id = ''u1'', ef_filename = ''1-a.csv'',
           ef_original_name = ''a.csv'', ef_file_size = 10, ef_file_path = ''u1/1-a.csv'',
           ef_upload_date = ''2025-07-02'', ef_status = ''uploaded''\<rparr>
          (Success ()) (Success ())
          \<lparr>storage_objects = [''u1/1-a.csv'', ''u1/2-b.csv''],
           excel_files =
             [\<lparr>ef_id = ''f1'', ef_user_id = ''u1'', ef_filename = ''1-a.csv'',
               ef_original_name = ''a.csv'', ef_file_size = 10, ef_file_path = ''u1/1-a.csv'',
               ef_upload_date = ''2025-07-02'', ef_status = ''uploaded''\<rparr>],
           analytics_data = []\<rparr>)) \<and>
   failure (ErrorResult ''Object not found'' :: unit response) \<noteq> None \<and>
   failure (Success ()) = None \<and>
   fst (handleDelete (Some \<lparr>user_id = ''u1''\<rparr>)
          \<lparr>ef_id = ''f1'', ef_user_id = ''u1'', ef_filename = ''1-a.csv'',
           ef_original_name = ''a.csv'', ef_file_size = 10, ef_file_path = ''u1/1-a.csv'',
           ef_upload_date = ''2025-07-02'', ef_status = ''uploaded''\<rparr>
          (ErrorResult ''Object not found'') (Success ())
          \<lparr>storage_objects = [''u1/1-a.csv'', ''u1/2-b.csv''],
           excel_files =
             [\<lparr>ef_id = ''f1'', ef_user_id = ''u1'', ef_filename = ''1-a.csv'',
               ef_original_name = ''a.csv'', ef_file_size = 10, ef_file_path = ''u1/1-a.csv'',
               ef_upload_date = ''2025-07-02'', ef_status = ''uploaded''\<rparr>],
           analytics_data = []\<rparr>) =
     \<lparr>storage_objects = [''u1/1-a.csv'', ''u1/2-b.csv''],
      excel_files =
        [\<lparr>ef_id = ''f1'', ef_user_id = ''u1'', ef_filename = ''1-a.csv'',
          ef_original_name = ''a.csv'', ef_file_size = 10, ef_file_path = ''u1/1-a.csv'',
          ef_upload_date = ''2025-07-02'', ef_status = ''uploaded''\<rparr>],
      analytics_data = []\<rparr> \<and>
   fst (handleDelete (Some \<lparr>user_id = ''u1''\<rparr>)
          \<lparr>ef_id = ''f1'', ef_user_id = ''u1'', ef_filename = ''1-a.csv'',
           ef_original_name = ''a.csv'', ef_file_size = 10, ef_file_path = ''u1/1-a.csv'',
           ef_upload_date = ''2025-07-02'', ef_status = ''uploaded''\<rparr>
          (Success ()) (ErrorResult ''Object not found'')
          \<lparr>storage_objects = [''u1/1-a.csv'', ''u1/2-b.csv''],
           excel_files =
             [\<lparr>ef_id = ''f1'', ef_user_id = ''u1'', ef_filename = ''1-a.csv'',
               ef_original_name = ''a.csv'', ef_file_size = 10, ef_file_path = ''u1/1-a.csv'',
               ef_upload_date = ''2025-07-02'', ef_status = ''uploaded''\<rparr>],
           analytics_data = []\<rparr>) =
     \<lparr>storage_objects = [''u1/2-b.csv''],
      excel_files =
        [\<lparr>ef_id = ''f1'', ef_user_id = ''u1'', ef_filename = ''1-a.csv'',
          ef_original_name = ''a.csv'', ef_file_size = 10, ef_file_path = ''u1/1-a.csv'',
          ef_upload_date = ''2025-07-02'', ef_status = ''uploaded''\<rparr>],
      analytics_data = []\<rparr>"
  using handleDelete_order_and_failures
    [where u = "\<lparr>user_id = ''u1''\<rparr>"
       and f = "\<lparr>ef_id = ''f1'', ef_user_id = ''u1'', ef_filename = ''1-a.csv'',
           ef_original_name = ''a.csv'', ef_file_size = 10, ef_file_path = ''u1/1-a.csv'',
           ef_upload_date = ''2025-07-02'', ef_status = ''uploaded''\<rparr>"
       and r_remove = "Success ()" and r_delete = "Success ()"
       and ?r_remove1.0 = "ErrorResult ''Object not found''" and ?r_delete1.0 = "Success ()"
       and ?r_remove2.0 = "Success ()" and ?r_delete2.0 = "ErrorResult ''Object not found''"
       and b = "\<lparr>storage_objects = [''u1/1-a.csv'', ''u1/2-b.csv''],
           excel_files =
             [\<lparr>ef_id = ''f1'', ef_user_id = ''u1'', ef_filename = ''1-a.csv'',
               ef_original_name = ''a.csv'', ef_file_size = 10, ef_file_path = ''u1/1-a.csv'',
               ef_upload_date = ''2025-07-02'', ef_status = ''uploaded''\<rparr>],
           analytics_data = []\<rparr>"]
  by (simp add: handleDelete_def storage_remove_def Let_def error_toast_def plain_toast_def)


section \<open>Properties: saving the analytics twice\<close>

text \<open>
  Claim C2 says that saving the analytics of the same file again replaces the row of
  each (\<^verbatim>\<open>file_id\<close>, \<^verbatim>\<open>sheet_name\<close>) pair, so that at most one row per pair exists.
  Saving a workbook of one sheet twice for file \<^verbatim>\<open>f1\<close>, the database generating
  the ids \<^verbatim>\<open>id-1\<close> and \<^verbatim>\<open>id-2\<close>, leaves two rows for the pair
  (\<^verbatim>\<open>f1\<close>, \<^verbatim>\<open>Sheet1\<close>).
\<close>

theorem saveAnalyticsData_twice_two_rows:
  "map (\<lambda>r. (ad_id r, ad_file_id (ad_values r), ad_sheet_name (ad_values r)))
     (analytics_data
       (fst (saveAnalyticsData (Some \<lparr>user_id = ''u1''\<rparr>) ''f1''
          (sheetsData_of nts
            \<lparr>SheetNames = [''Sheet1''],
             sheet_to_json = (\<lambda>n. if n = ''Sheet1''
               then Some ([Some (JStr ''a'')], [[JNum (Fin 1)]]) else None)\<rparr>)
          (\<lambda>i. Success ''id-2'')
          (fst (saveAnalyticsData (Some \<lparr>user_id = ''u1''\<rparr>) ''f1''
             (sheetsData_of nts
               \<lparr>SheetNames = [''Sheet1''],
                sheet_to_json = (\<lambda>n. if n = ''Sheet1''
                  then Some ([Some (JStr ''a'')], [[JNum (Fin 1)]]) else None)\<rparr>)
             (\<lambda>i. Success ''id-1'')
             \<lparr>storage_objects = [], excel_files = [], analytics_data = []\<rparr>))))) =
     [(''id-1'', ''f1'', ''Sheet1''), (''id-2'', ''f1'', ''Sheet1'')]"
  by (simp add: saveAnalyticsData_def sheetsData_of_def upsert_values_def upsert_analytics_def
      header_columns_def Let_def)

end
